theory Spec2Isabelle
  imports Main "HOL-Library.Multiset"
begin

section \<open>Hidden imports of a Django project (PyInstaller/utils/hooks/django.py)\<close>

text \<open>
  The hook function \<open>django_dottedstring_imports\<close> reads the Django settings object and
  collects the names of the modules that Django loads by dotted string. This theory embeds
  the function from line 57 on (everything before only locates and loads the settings
  module), with the settings object as its input.

  Strings are \<open>string\<close>; the only character the code looks at is the ASCII dot, so
  counting bytes instead of code points changes nothing.
\<close>

subsection \<open>The string operations of Python that the code uses\<close>

text \<open>
  \<open>s.split(sep)\<close> for a one-character separator: the pieces between the separators,
  always at least one piece (\<open>''.split('.')\<close> is \<open>['']\<close>).
\<close>

fun str_split :: "char \<Rightarrow> string \<Rightarrow> string list" where
  "str_split sep [] = [[]]"
| "str_split sep (c # s) =
     (if c = sep then [] # str_split sep s
      else (case str_split sep s of
              [] \<Rightarrow> [[c]]
            | w # ws \<Rightarrow> (c # w) # ws))"

text \<open>\<open>sep.join(parts)\<close>.\<close>

fun str_join :: "string \<Rightarrow> string list \<Rightarrow> string" where
  "str_join sep [] = []"
| "str_join sep [w] = w"
| "str_join sep (w # v # ws) = w @ sep @ str_join sep (v # ws)"

text \<open>
  The slice \<open>xs[0:-1]\<close>: the stop index \<open>-1\<close> is \<open>len(xs) - 1\<close>, clamped at 0 for the
  empty list, which is the truncating subtraction of \<open>nat\<close>.
\<close>

definition slice_0_m1 :: "'a list \<Rightarrow> 'a list" where
  "slice_0_m1 xs = take (length xs - 1) xs"

text \<open>
  Line 60:
  \<^verbatim>\<open>def _remove_class(class_name): return '.'.join(class_name.split('.')[0:-1])\<close>
\<close>

definition remove_class :: "string \<Rightarrow> string" where
  "remove_class class_name = str_join ''.'' (slice_0_m1 (str_split (CHR ''.'') class_name))"

subsection \<open>The settings object\<close>

text \<open>
  The settings object is a record with one field for each attribute the function reads.
  An attribute that the object does not have is \<open>None\<close>, so that \<open>hasattr\<close> is
  \<open>\<noteq> None\<close>. The values have the types the Django documentation gives them: lists of
  dotted strings, dictionaries of dictionaries for \<open>CACHES\<close>, \<open>STORAGES\<close> and
  \<open>DATABASES\<close>, a list of dictionaries for \<open>TEMPLATES\<close>. The inner dictionaries are
  records of the keys the code reads, \<open>None\<close> for a key that is not there; the outer
  dictionaries are association lists in insertion order, which is the order of
  \<open>.values()\<close>.
\<close>

record template_options =
  context_processors :: "string list option"

record template =
  template_BACKEND :: "string option"
  template_OPTIONS :: "template_options option"

record cache_options =
  CLIENT_CLASS :: "string option"

record cache =
  cache_BACKEND :: "string option"
  cache_OPTIONS :: "cache_options option"

record storage =
  storage_BACKEND :: "string option"

record database =
  ENGINE :: "string option"

record settings =
  INSTALLED_APPS :: "string list option"
  TEMPLATE_CONTEXT_PROCESSORS :: "string list option"
  TEMPLATES :: "template list option"
  CACHES :: "(string \<times> cache) list option"
  STORAGES :: "(string \<times> storage) list option"
  TEMPLATE_LOADERS :: "string list option"
  ROOT_URLCONF :: "string option"
  AUTHENTICATION_BACKENDS :: "string list option"
  DEFAULT_FILE_STORAGE :: "string option"
  FILE_UPLOAD_HANDLERS :: "string list option"
  MIDDLEWARE_CLASSES :: "string list option"
  MIDDLEWARE :: "string list option"
  DATABASES :: "(string \<times> database) list option"

text \<open>\<open>d.values()\<close> of a dictionary kept as an association list.\<close>

definition dict_values :: "(string \<times> 'v) list \<Rightarrow> 'v list" where
  "dict_values d = map snd d"

text \<open>
  \<open>hasattr(d, name)\<close> for a plain dictionary \<open>d\<close>: a dictionary has the attributes of
  its class, never its keys.
\<close>

definition dict_attribute_names :: "string list" where
  "dict_attribute_names =
     [''clear'', ''copy'', ''fromkeys'', ''get'', ''items'', ''keys'', ''pop'', ''popitem'',
      ''setdefault'', ''update'', ''values'',
      ''__class__'', ''__class_getitem__'', ''__contains__'', ''__delattr__'', ''__delitem__'',
      ''__dir__'', ''__doc__'', ''__eq__'', ''__format__'', ''__ge__'', ''__getattribute__'',
      ''__getitem__'', ''__getstate__'', ''__gt__'', ''__hash__'', ''__init__'',
      ''__init_subclass__'', ''__ior__'', ''__iter__'', ''__le__'', ''__len__'', ''__lt__'',
      ''__ne__'', ''__new__'', ''__or__'', ''__reduce__'', ''__reduce_ex__'', ''__repr__'',
      ''__reversed__'', ''__ror__'', ''__setattr__'', ''__setitem__'', ''__sizeof__'',
      ''__str__'', ''__subclasshook__'']"

definition dict_hasattr :: "string \<Rightarrow> bool" where
  "dict_hasattr name = (name \<in> set dict_attribute_names)"

text \<open>The exceptions the function can raise on a settings object of these types.\<close>

datatype error = AttributeError string | KeyError string

subsection \<open>The local state\<close>

text \<open>
  The function builds the list \<open>hiddenimports\<close> and uses the local variable \<open>cl\<close> in
  several blocks; \<open>cl\<close> is \<open>None\<close> while it is unbound or holds Python's \<open>None\<close>.
  The other local variables are read only in the statement after their assignment.
\<close>

record locals =
  hiddenimports :: "string list"
  cl :: "string option"

text \<open>\<open>hiddenimports += xs\<close>, and \<open>hiddenimports.append(x)\<close> as \<open>extend [x]\<close>.\<close>

definition extend :: "string list \<Rightarrow> locals \<Rightarrow> locals" where
  "extend xs s = s\<lparr>hiddenimports := hiddenimports s @ xs\<rparr>"

text \<open>\<open>cl = _remove_class(x); hiddenimports.append(cl)\<close>\<close>

definition strip_append :: "string \<Rightarrow> locals \<Rightarrow> locals" where
  "strip_append x s = (let c = remove_class x in extend [c] (s\<lparr>cl := Some c\<rparr>))"

text \<open>\<open>for cl in xs: cl = _remove_class(cl); hiddenimports.append(cl)\<close>\<close>

fun strip_loop :: "string list \<Rightarrow> locals \<Rightarrow> locals" where
  "strip_loop [] s = s"
| "strip_loop (x # xs) s = strip_loop xs (strip_append x (s\<lparr>cl := Some x\<rparr>))"

text \<open>Sequencing of steps that can raise: the first exception ends the run.\<close>

definition then_do :: "error + 'a \<Rightarrow> ('a \<Rightarrow> error + 'b) \<Rightarrow> error + 'b" where
  "then_do r f = (case r of Inl e \<Rightarrow> Inl e | Inr x \<Rightarrow> f x)"

text \<open>\<open>settings.NAME\<close> without a guard raises AttributeError when the attribute is absent.\<close>

definition get_attribute :: "string \<Rightarrow> 'a option \<Rightarrow> error + 'a" where
  "get_attribute name v = (case v of None \<Rightarrow> Inl (AttributeError name) | Some x \<Rightarrow> Inr x)"

subsection \<open>Lines 57 to 87: the settings read behind \<open>hasattr\<close>\<close>

text \<open>
  Lines 64-65:
  \<^verbatim>\<open>if hasattr(settings, 'TEMPLATE_CONTEXT_PROCESSORS'):
    hiddenimports += list(settings.TEMPLATE_CONTEXT_PROCESSORS)\<close>
\<close>

definition block_TEMPLATE_CONTEXT_PROCESSORS :: "settings \<Rightarrow> locals \<Rightarrow> locals" where
  "block_TEMPLATE_CONTEXT_PROCESSORS st s =
     (case TEMPLATE_CONTEXT_PROCESSORS st of None \<Rightarrow> s | Some ps \<Rightarrow> extend ps s)"

text \<open>\<open>template.get('OPTIONS', {}).get('context_processors', [])\<close>\<close>

definition get_context_processors :: "template \<Rightarrow> string list" where
  "get_context_processors t =
     (case template_OPTIONS t of
        None \<Rightarrow> []
      | Some opts \<Rightarrow> (case context_processors opts of None \<Rightarrow> [] | Some ps \<Rightarrow> ps))"

text \<open>Lines 67-69.\<close>

fun template_options_loop :: "template list \<Rightarrow> locals \<Rightarrow> locals" where
  "template_options_loop [] s = s"
| "template_options_loop (t # ts) s =
     template_options_loop ts (extend (get_context_processors t) s)"

definition block_TEMPLATES_options :: "settings \<Rightarrow> locals \<Rightarrow> locals" where
  "block_TEMPLATES_options st s =
     (case TEMPLATES st of None \<Rightarrow> s | Some ts \<Rightarrow> template_options_loop ts s)"

text \<open>\<open>cache.get('OPTIONS', {}).get('CLIENT_CLASS')\<close>\<close>

definition get_client_class :: "cache \<Rightarrow> string option" where
  "get_client_class c =
     (case cache_OPTIONS c of None \<Rightarrow> None | Some opts \<Rightarrow> CLIENT_CLASS opts)"

text \<open>
  Lines 73-79, the body of the loop over the caches. \<open>if v:\<close> on an optional string is
  false for \<open>None\<close> and for the empty string.
\<close>

definition cache_step :: "cache \<Rightarrow> locals \<Rightarrow> locals" where
  "cache_step c s =
     (let s1 = (case cache_BACKEND c of
                  None \<Rightarrow> s
                | Some b \<Rightarrow> if b \<noteq> [] then strip_append b s else s)
      in case get_client_class c of
           None \<Rightarrow> s1
         | Some client_class \<Rightarrow> if client_class \<noteq> [] then strip_append client_class s1 else s1)"

fun caches_loop :: "cache list \<Rightarrow> locals \<Rightarrow> locals" where
  "caches_loop [] s = s"
| "caches_loop (c # cs) s = caches_loop cs (cache_step c s)"

definition block_CACHES :: "settings \<Rightarrow> locals \<Rightarrow> locals" where
  "block_CACHES st s =
     (case CACHES st of None \<Rightarrow> s | Some d \<Rightarrow> caches_loop (dict_values d) s)"

text \<open>
  Lines 81-84: the loop over the storages assigns \<open>cl\<close> and appends nothing.
  \<^verbatim>\<open>if hasattr(settings, 'STORAGES'):
    for storage in settings.STORAGES.values():
        if storage.get('BACKEND'):
            cl = _remove_class(storage.get('BACKEND'))\<close>
\<close>

definition storage_step :: "storage \<Rightarrow> locals \<Rightarrow> locals" where
  "storage_step x s =
     (case storage_BACKEND x of
        None \<Rightarrow> s
      | Some b \<Rightarrow> if b \<noteq> [] then s\<lparr>cl := Some (remove_class b)\<rparr> else s)"

fun storages_loop :: "storage list \<Rightarrow> locals \<Rightarrow> locals" where
  "storages_loop [] s = s"
| "storages_loop (x # xs) s = storages_loop xs (storage_step x s)"

definition block_STORAGES :: "settings \<Rightarrow> locals \<Rightarrow> locals" where
  "block_STORAGES st s =
     (case STORAGES st of None \<Rightarrow> s | Some d \<Rightarrow> storages_loop (dict_values d) s)"

text \<open>Lines 86-87.\<close>

definition block_TEMPLATE_LOADERS :: "settings \<Rightarrow> locals \<Rightarrow> locals" where
  "block_TEMPLATE_LOADERS st s =
     (case TEMPLATE_LOADERS st of None \<Rightarrow> s | Some ls \<Rightarrow> extend ls s)"

text \<open>
  Line 57 reads \<open>settings.INSTALLED_APPS\<close> without a guard; the five guarded blocks
  follow in the order of the source.
\<close>

definition lines_57_87 :: "settings \<Rightarrow> error + locals" where
  "lines_57_87 st =
     then_do (get_attribute ''INSTALLED_APPS'' (INSTALLED_APPS st)) (\<lambda>apps.
       Inr (block_TEMPLATE_LOADERS st
             (block_STORAGES st
               (block_CACHES st
                 (block_TEMPLATES_options st
                   (block_TEMPLATE_CONTEXT_PROCESSORS st
                     \<lparr>hiddenimports = apps, cl = None\<rparr>))))))"

subsection \<open>Lines 89 to 113: the root URL configuration and the class names\<close>

text \<open>Lines 94-97, 102-105, 106-109 and 110-113 have the same shape.\<close>

definition block_class_list :: "string list option \<Rightarrow> locals \<Rightarrow> locals" where
  "block_class_list v s = (case v of None \<Rightarrow> s | Some xs \<Rightarrow> strip_loop xs s)"

text \<open>
  Lines 99-101:
  \<^verbatim>\<open>cl = getattr(settings, 'DEFAULT_FILE_STORAGE', None)
if cl:
    hiddenimports.append(_remove_class(cl))\<close>
\<close>

definition block_DEFAULT_FILE_STORAGE :: "settings \<Rightarrow> locals \<Rightarrow> locals" where
  "block_DEFAULT_FILE_STORAGE st s =
     (let s1 = s\<lparr>cl := DEFAULT_FILE_STORAGE st\<rparr>
      in case cl s1 of
           None \<Rightarrow> s1
         | Some v \<Rightarrow> if v \<noteq> [] then extend [remove_class v] s1 else s1)"

text \<open>Line 89 reads \<open>settings.ROOT_URLCONF\<close> without a guard.\<close>

definition lines_89_113 :: "settings \<Rightarrow> locals \<Rightarrow> error + locals" where
  "lines_89_113 st s =
     then_do (get_attribute ''ROOT_URLCONF'' (ROOT_URLCONF st)) (\<lambda>root_urlconf.
       Inr (block_class_list (MIDDLEWARE st)
             (block_class_list (MIDDLEWARE_CLASSES st)
               (block_class_list (FILE_UPLOAD_HANDLERS st)
                 (block_DEFAULT_FILE_STORAGE st
                   (block_class_list (AUTHENTICATION_BACKENDS st)
                     (extend [root_urlconf] s)))))))"

subsection \<open>Lines 115 to 125: the template backends\<close>

text \<open>
  \<^verbatim>\<open>for templ in settings.TEMPLATES:
    backend = _remove_class(templ['BACKEND'])
    hiddenimports.append(backend)
    if hasattr(templ, 'OPTIONS'):
        if hasattr(templ['OPTIONS'], 'context_processors'):
            mods = templ['OPTIONS']['context_processors']
            mods = [_remove_class(x) for x in mods]
            hiddenimports += mods\<close>
  A subscript with a key that is not there raises KeyError. Both \<open>hasattr\<close> tests are
  on dictionaries.
\<close>

definition template_step :: "template \<Rightarrow> locals \<Rightarrow> error + locals" where
  "template_step templ s =
     (case template_BACKEND templ of
        None \<Rightarrow> Inl (KeyError ''BACKEND'')
      | Some b \<Rightarrow>
          let s1 = extend [remove_class b] s
          in if dict_hasattr ''OPTIONS'' then
               (case template_OPTIONS templ of
                  None \<Rightarrow> Inl (KeyError ''OPTIONS'')
                | Some opts \<Rightarrow>
                    if dict_hasattr ''context_processors'' then
                      (case context_processors opts of
                         None \<Rightarrow> Inl (KeyError ''context_processors'')
                       | Some mods \<Rightarrow> Inr (extend (map remove_class mods) s1))
                    else Inr s1)
             else Inr s1)"

fun templates_loop :: "template list \<Rightarrow> locals \<Rightarrow> error + locals" where
  "templates_loop [] s = Inr s"
| "templates_loop (templ # ts) s = then_do (template_step templ s) (templates_loop ts)"

definition lines_115_125 :: "settings \<Rightarrow> locals \<Rightarrow> error + locals" where
  "lines_115_125 st s =
     (case TEMPLATES st of None \<Rightarrow> Inr s | Some ts \<Rightarrow> templates_loop ts s)"

subsection \<open>Lines 127 to 136: the database engines and the installed applications\<close>

text \<open>
  \<^verbatim>\<open>for v in settings.DATABASES.values():
    hiddenimports.append(v['ENGINE'])\<close>
\<close>

fun databases_loop :: "database list \<Rightarrow> locals \<Rightarrow> error + locals" where
  "databases_loop [] s = Inr s"
| "databases_loop (v # vs) s =
     (case ENGINE v of
        None \<Rightarrow> Inl (KeyError ''ENGINE'')
      | Some e \<Rightarrow> databases_loop vs (extend [e] s))"

definition lines_127_128 :: "settings \<Rightarrow> locals \<Rightarrow> error + locals" where
  "lines_127_128 st s =
     then_do (get_attribute ''DATABASES'' (DATABASES st)) (\<lambda>d. databases_loop (dict_values d) s)"

text \<open>
  Lines 131-136. \<open>collect_submodules\<close> is the helper of the host tool
  (\<open>PyInstaller.utils.hooks\<close>); it is a parameter here: the list of module names it
  returns for a package name.
  \<^verbatim>\<open>for app in settings.INSTALLED_APPS:
    app_templatetag_module = app + '.templatetags'
    app_ctx_proc_module = app + '.context_processors'
    hiddenimports.append(app_templatetag_module)
    hiddenimports += hookutils.collect_submodules(app_templatetag_module)
    hiddenimports.append(app_ctx_proc_module)\<close>
\<close>

definition app_step :: "(string \<Rightarrow> string list) \<Rightarrow> string \<Rightarrow> locals \<Rightarrow> locals" where
  "app_step collect_submodules app s =
     (let app_templatetag_module = app @ ''.templatetags'';
          app_ctx_proc_module = app @ ''.context_processors''
      in extend [app_ctx_proc_module]
           (extend (collect_submodules app_templatetag_module)
             (extend [app_templatetag_module] s)))"

fun apps_loop :: "(string \<Rightarrow> string list) \<Rightarrow> string list \<Rightarrow> locals \<Rightarrow> locals" where
  "apps_loop collect_submodules [] s = s"
| "apps_loop collect_submodules (app # apps) s =
     apps_loop collect_submodules apps (app_step collect_submodules app s)"

definition lines_131_136 :: "(string \<Rightarrow> string list) \<Rightarrow> settings \<Rightarrow> locals \<Rightarrow> error + locals" where
  "lines_131_136 collect_submodules st s =
     then_do (get_attribute ''INSTALLED_APPS'' (INSTALLED_APPS st)) (\<lambda>apps.
       Inr (apps_loop collect_submodules apps s))"

subsection \<open>The whole function\<close>

text \<open>Lines 57 to 136: the list \<open>hiddenimports\<close> before line 139, or the exception raised.\<close>

definition collect_hiddenimports :: "(string \<Rightarrow> string list) \<Rightarrow> settings \<Rightarrow> error + string list" where
  "collect_hiddenimports collect_submodules st =
     then_do (lines_57_87 st) (\<lambda>s1.
     then_do (lines_89_113 st s1) (\<lambda>s2.
     then_do (lines_115_125 st s2) (\<lambda>s3.
     then_do (lines_127_128 st s3) (\<lambda>s4.
     then_do (lines_131_136 collect_submodules st s4) (\<lambda>s5.
       Inr (hiddenimports s5))))))"

text \<open>
  Line 139, \<open>hiddenimports = list(set(hiddenimports))\<close>. A Python set holds each element
  once, and the language fixes no order in which a set is iterated: for strings the order
  follows their hash values, which the interpreter salts anew in every process unless
  \<open>PYTHONHASHSEED\<close> is set. \<open>list_of_set xs ys\<close> says that \<open>ys\<close> is a value that
  \<open>list(set(xs))\<close> can have: the elements of \<open>xs\<close>, each once, in some order.
\<close>

definition list_of_set :: "string list \<Rightarrow> string list \<Rightarrow> bool" where
  "list_of_set xs ys = (distinct ys \<and> set ys = set xs)"

text \<open>
  \<open>django_dottedstring_imports collect_submodules st r\<close>: a run on the settings \<open>st\<close>
  can end with \<open>r\<close>, which is the list returned (\<open>Inr\<close>) or the exception raised
  (\<open>Inl\<close>).
\<close>

definition django_dottedstring_imports ::
    "(string \<Rightarrow> string list) \<Rightarrow> settings \<Rightarrow> error + string list \<Rightarrow> bool" where
  "django_dottedstring_imports collect_submodules st r =
     (case collect_hiddenimports collect_submodules st of
        Inl e \<Rightarrow> r = Inl e
      | Inr hidden \<Rightarrow> (case r of Inl e \<Rightarrow> False | Inr out \<Rightarrow> list_of_set hidden out))"

subsection \<open>What each setting contributes, as the specification describes it\<close>

text \<open>
  The specification describes the result as the deduplication of a list of contributions,
  one for each setting. These definitions follow that description, not the control flow of
  the code; the theorems below compare the two. An absent setting contributes nothing.
\<close>

definition optional_list :: "'a list option \<Rightarrow> 'a list" where
  "optional_list v = (case v of None \<Rightarrow> [] | Some xs \<Rightarrow> xs)"

definition optional_values :: "(string \<times> 'v) list option \<Rightarrow> 'v list" where
  "optional_values v = (case v of None \<Rightarrow> [] | Some d \<Rightarrow> dict_values d)"

text \<open>A class name that is present and not empty contributes its module path.\<close>

definition class_contribution :: "string option \<Rightarrow> string list" where
  "class_contribution v =
     (case v of None \<Rightarrow> [] | Some c \<Rightarrow> if c = [] then [] else [remove_class c])"

definition cache_contribution :: "cache \<Rightarrow> string list" where
  "cache_contribution c =
     class_contribution (cache_BACKEND c) @ class_contribution (get_client_class c)"

definition template_backend_contribution :: "template \<Rightarrow> string list" where
  "template_backend_contribution t =
     (case template_BACKEND t of None \<Rightarrow> [] | Some b \<Rightarrow> [remove_class b])"

definition engine_contribution :: "database \<Rightarrow> string list" where
  "engine_contribution v = (case ENGINE v of None \<Rightarrow> [] | Some e \<Rightarrow> [e])"

definition app_contribution :: "(string \<Rightarrow> string list) \<Rightarrow> string \<Rightarrow> string list" where
  "app_contribution collect_submodules app =
     [app @ ''.templatetags''] @ collect_submodules (app @ ''.templatetags'')
       @ [app @ ''.context_processors'']"

definition contributions :: "(string \<Rightarrow> string list) \<Rightarrow> settings \<Rightarrow> string list" where
  "contributions collect_submodules st =
     optional_list (INSTALLED_APPS st)
     @ optional_list (TEMPLATE_CONTEXT_PROCESSORS st)
     @ concat (map get_context_processors (optional_list (TEMPLATES st)))
     @ concat (map cache_contribution (optional_values (CACHES st)))
     @ optional_list (TEMPLATE_LOADERS st)
     @ optional_list (map_option (\<lambda>u. [u]) (ROOT_URLCONF st))
     @ map remove_class (optional_list (AUTHENTICATION_BACKENDS st))
     @ class_contribution (DEFAULT_FILE_STORAGE st)
     @ map remove_class (optional_list (FILE_UPLOAD_HANDLERS st))
     @ map remove_class (optional_list (MIDDLEWARE_CLASSES st))
     @ map remove_class (optional_list (MIDDLEWARE st))
     @ concat (map template_backend_contribution (optional_list (TEMPLATES st)))
     @ concat (map engine_contribution (optional_values (DATABASES st)))
     @ concat (map (app_contribution collect_submodules) (optional_list (INSTALLED_APPS st)))"

text \<open>
  The settings on which no unguarded read fails: the three attributes read without
  \<open>hasattr\<close> are there, every template has the key \<open>BACKEND\<close> and every database the
  key \<open>ENGINE\<close>.
\<close>

definition runs_through :: "settings \<Rightarrow> bool" where
  "runs_through st =
     (INSTALLED_APPS st \<noteq> None \<and> ROOT_URLCONF st \<noteq> None \<and> DATABASES st \<noteq> None
      \<and> list_all (\<lambda>t. template_BACKEND t \<noteq> None) (optional_list (TEMPLATES st))
      \<and> list_all (\<lambda>v. ENGINE v \<noteq> None) (optional_values (DATABASES st)))"

text \<open>
  The settings whose values are class names, and the settings whose values are module
  names already. \<open>class_names\<close> lists the class names that the code passes on: the
  entries of the four list settings, the \<open>BACKEND\<close> of every template, and the values
  of \<open>DEFAULT_FILE_STORAGE\<close>, of a cache's \<open>BACKEND\<close> and of its
  \<open>OPTIONS.CLIENT_CLASS\<close> that are present and not empty.
\<close>

definition nonempty_value :: "string option \<Rightarrow> string list" where
  "nonempty_value v = (case v of None \<Rightarrow> [] | Some c \<Rightarrow> if c = [] then [] else [c])"

definition cache_class_names :: "cache \<Rightarrow> string list" where
  "cache_class_names c = nonempty_value (cache_BACKEND c) @ nonempty_value (get_client_class c)"

definition template_class_names :: "template \<Rightarrow> string list" where
  "template_class_names t = (case template_BACKEND t of None \<Rightarrow> [] | Some b \<Rightarrow> [b])"

definition class_names :: "settings \<Rightarrow> string list" where
  "class_names st =
     concat (map cache_class_names (optional_values (CACHES st)))
     @ optional_list (AUTHENTICATION_BACKENDS st)
     @ nonempty_value (DEFAULT_FILE_STORAGE st)
     @ optional_list (FILE_UPLOAD_HANDLERS st)
     @ optional_list (MIDDLEWARE_CLASSES st)
     @ optional_list (MIDDLEWARE st)
     @ concat (map template_class_names (optional_list (TEMPLATES st)))"

definition module_names :: "(string \<Rightarrow> string list) \<Rightarrow> settings \<Rightarrow> string list" where
  "module_names collect_submodules st =
     optional_list (INSTALLED_APPS st)
     @ optional_list (TEMPLATE_CONTEXT_PROCESSORS st)
     @ concat (map get_context_processors (optional_list (TEMPLATES st)))
     @ optional_list (TEMPLATE_LOADERS st)
     @ optional_list (map_option (\<lambda>u. [u]) (ROOT_URLCONF st))
     @ concat (map engine_contribution (optional_values (DATABASES st)))
     @ concat (map (app_contribution collect_submodules) (optional_list (INSTALLED_APPS st)))"

subsection \<open>Example settings\<close>

text \<open>
  A project with every setting the function reads: the settings of a Django 2.2 project
  together with the older names \<open>TEMPLATE_CONTEXT_PROCESSORS\<close>, \<open>TEMPLATE_LOADERS\<close> and
  \<open>MIDDLEWARE_CLASSES\<close>. The last entry of \<open>MIDDLEWARE\<close> has no dot.
\<close>

definition example_settings :: settings where
  "example_settings =
     \<lparr>INSTALLED_APPS = Some [''django.contrib.auth'', ''blog''],
      TEMPLATE_CONTEXT_PROCESSORS = Some [''blog.context.site''],
      TEMPLATES = Some
        [\<lparr>template_BACKEND = Some ''django.template.backends.django.DjangoTemplates'',
          template_OPTIONS = Some
            \<lparr>context_processors = Some [''django.contrib.auth.context_processors.auth'']\<rparr>\<rparr>],
      CACHES = Some
        [(''default'',
          \<lparr>cache_BACKEND = Some ''django_redis.cache.RedisCache'',
           cache_OPTIONS = Some \<lparr>CLIENT_CLASS = Some ''django_redis.client.DefaultClient''\<rparr>\<rparr>)],
      STORAGES = Some [(''default'', \<lparr>storage_BACKEND = Some ''storages.backends.s3.S3Storage''\<rparr>)],
      TEMPLATE_LOADERS = Some [''django.template.loaders.filesystem.Loader''],
      ROOT_URLCONF = Some ''mysite.urls'',
      AUTHENTICATION_BACKENDS = Some [''django.contrib.auth.backends.ModelBackend''],
      DEFAULT_FILE_STORAGE = Some ''django.core.files.storage.FileSystemStorage'',
      FILE_UPLOAD_HANDLERS = Some [''django.core.files.uploadhandler.MemoryFileUploadHandler''],
      MIDDLEWARE_CLASSES = Some [''django.middleware.common.CommonMiddleware''],
      MIDDLEWARE = Some [''django.middleware.gzip.GZipMiddleware'', ''whitenoise''],
      DATABASES = Some [(''default'', \<lparr>ENGINE = Some ''django.db.backends.sqlite3''\<rparr>)]\<rparr>"

text \<open>What \<open>collect_submodules\<close> returns when only the application \<open>blog\<close> has template tags.\<close>

definition example_submodules :: "string \<Rightarrow> string list" where
  "example_submodules package =
     (if package = ''blog.templatetags''
      then [''blog.templatetags'', ''blog.templatetags.blog_extras'']
      else [])"

text \<open>A list that a run on the example settings can return.\<close>

definition example_output :: "string list" where
  "example_output =
     [''django.contrib.auth'', ''blog'', ''blog.context.site'',
      ''django.contrib.auth.context_processors.auth'', ''django_redis.cache'',
      ''django_redis.client'', ''django.template.loaders.filesystem.Loader'', ''mysite.urls'',
      ''django.contrib.auth.backends'', ''django.core.files.storage'',
      ''django.core.files.uploadhandler'', ''django.middleware.common'',
      ''django.middleware.gzip'', [], ''django.template.backends.django'',
      ''django.db.backends.sqlite3'', ''django.contrib.auth.templatetags'',
      ''django.contrib.auth.context_processors'', ''blog.templatetags'',
      ''blog.templatetags.blog_extras'', ''blog.context_processors'']"

text \<open>
  The smallest settings on which the function returns: no application, no database, and
  none of the guarded attributes.
\<close>

definition minimal_settings :: settings where
  "minimal_settings =
     \<lparr>INSTALLED_APPS = Some [], TEMPLATE_CONTEXT_PROCESSORS = None, TEMPLATES = None,
      CACHES = None, STORAGES = None, TEMPLATE_LOADERS = None,
      ROOT_URLCONF = Some ''mysite.urls'', AUTHENTICATION_BACKENDS = None,
      DEFAULT_FILE_STORAGE = None, FILE_UPLOAD_HANDLERS = None, MIDDLEWARE_CLASSES = None,
      MIDDLEWARE = None, DATABASES = Some []\<rparr>"

definition no_submodules :: "string \<Rightarrow> string list" where
  "no_submodules package = []"

text \<open>A project without URL routing: \<open>ROOT_URLCONF\<close> has no default in Django.\<close>

definition settings_without_urlconf :: settings where
  "settings_without_urlconf = minimal_settings\<lparr>ROOT_URLCONF := None\<rparr>"

text \<open>A project with one database.\<close>

definition settings_with_database :: settings where
  "settings_with_database =
     minimal_settings\<lparr>DATABASES := Some [(''default'', \<lparr>ENGINE = Some ''django.db.backends.sqlite3''\<rparr>)]\<rparr>"

text \<open>A project whose \<open>DEFAULT_FILE_STORAGE\<close> is the empty string.\<close>

definition settings_with_empty_storage :: settings where
  "settings_with_empty_storage = minimal_settings\<lparr>DEFAULT_FILE_STORAGE := Some []\<rparr>"

text \<open>The settings with the options of every template taken out.\<close>

definition without_template_options :: "settings \<Rightarrow> settings" where
  "without_template_options st =
     st\<lparr>TEMPLATES := map_option (map (\<lambda>t. t\<lparr>template_OPTIONS := None\<rparr>)) (TEMPLATES st)\<rparr>"

section \<open>Properties\<close>

subsection \<open>Stripping the class name\<close>

lemma str_split_ne: "str_split sep s \<noteq> []"
  by (induction s) (auto split: list.splits)

lemma str_split_no_sep: "sep \<notin> set s \<Longrightarrow> str_split sep s = [s]"
  by (induction s) auto

lemma str_split_append_sep:
  "str_split sep (m @ sep # c) = str_split sep m @ str_split sep c"
  by (induction m) (auto split: list.splits simp: str_split_ne)

lemma str_join_split: "str_join [sep] (str_split sep s) = s"
proof (induction s)
  case Nil
  show ?case by simp
next
  case (Cons c s)
  obtain w ws where "str_split sep s = w # ws"
    using str_split_ne [of sep s] by (cases "str_split sep s") auto
  with Cons show ?case by (cases ws) auto
qed

lemma slice_0_m1_snoc: "slice_0_m1 (xs @ [x]) = xs"
  by (simp add: slice_0_m1_def)

lemma remove_class_no_dot: "CHR ''.'' \<notin> set c \<Longrightarrow> remove_class c = []"
  by (simp add: remove_class_def str_split_no_sep slice_0_m1_def)

lemma remove_class_dotted: "CHR ''.'' \<notin> set c \<Longrightarrow> remove_class (m @ ''.'' @ c) = m"
  by (simp add: remove_class_def str_split_append_sep str_split_no_sep slice_0_m1_snoc str_join_split)

subsection \<open>What each block appends\<close>

lemma dict_hasattr_OPTIONS: "dict_hasattr ''OPTIONS'' = False"
  by (simp add: dict_hasattr_def dict_attribute_names_def)

lemma dict_hasattr_context_processors: "dict_hasattr ''context_processors'' = False"
  by (simp add: dict_hasattr_def dict_attribute_names_def)

lemma hiddenimports_extend: "hiddenimports (extend xs s) = hiddenimports s @ xs"
  by (simp add: extend_def)

lemma hiddenimports_strip_append:
  "hiddenimports (strip_append x s) = hiddenimports s @ [remove_class x]"
  by (simp add: strip_append_def extend_def Let_def)

lemma hiddenimports_strip_loop:
  "hiddenimports (strip_loop xs s) = hiddenimports s @ map remove_class xs"
  by (induction xs arbitrary: s) (simp_all add: hiddenimports_strip_append)

lemma hiddenimports_block_class_list:
  "hiddenimports (block_class_list v s) = hiddenimports s @ map remove_class (optional_list v)"
  by (cases v) (simp_all add: block_class_list_def optional_list_def hiddenimports_strip_loop)

lemma hiddenimports_block_TEMPLATE_CONTEXT_PROCESSORS:
  "hiddenimports (block_TEMPLATE_CONTEXT_PROCESSORS st s)
     = hiddenimports s @ optional_list (TEMPLATE_CONTEXT_PROCESSORS st)"
  by (simp add: block_TEMPLATE_CONTEXT_PROCESSORS_def optional_list_def hiddenimports_extend
           split: option.splits)

lemma hiddenimports_template_options_loop:
  "hiddenimports (template_options_loop ts s)
     = hiddenimports s @ concat (map get_context_processors ts)"
  by (induction ts arbitrary: s) (simp_all add: hiddenimports_extend)

lemma hiddenimports_block_TEMPLATES_options:
  "hiddenimports (block_TEMPLATES_options st s)
     = hiddenimports s @ concat (map get_context_processors (optional_list (TEMPLATES st)))"
  by (simp add: block_TEMPLATES_options_def optional_list_def
                hiddenimports_template_options_loop split: option.splits)

lemma hiddenimports_cache_step:
  "hiddenimports (cache_step c s) = hiddenimports s @ cache_contribution c"
  by (simp add: cache_step_def cache_contribution_def class_contribution_def Let_def
                hiddenimports_strip_append split: option.splits)

lemma hiddenimports_caches_loop:
  "hiddenimports (caches_loop cs s) = hiddenimports s @ concat (map cache_contribution cs)"
  by (induction cs arbitrary: s) (simp_all add: hiddenimports_cache_step)

lemma hiddenimports_block_CACHES:
  "hiddenimports (block_CACHES st s)
     = hiddenimports s @ concat (map cache_contribution (optional_values (CACHES st)))"
  by (simp add: block_CACHES_def optional_values_def hiddenimports_caches_loop
           split: option.splits)

lemma hiddenimports_storage_step: "hiddenimports (storage_step x s) = hiddenimports s"
  by (simp add: storage_step_def split: option.splits)

lemma hiddenimports_storages_loop: "hiddenimports (storages_loop xs s) = hiddenimports s"
  by (induction xs arbitrary: s) (simp_all add: hiddenimports_storage_step)

lemma hiddenimports_block_STORAGES: "hiddenimports (block_STORAGES st s) = hiddenimports s"
  by (simp add: block_STORAGES_def hiddenimports_storages_loop split: option.splits)

lemma hiddenimports_block_TEMPLATE_LOADERS:
  "hiddenimports (block_TEMPLATE_LOADERS st s)
     = hiddenimports s @ optional_list (TEMPLATE_LOADERS st)"
  by (simp add: block_TEMPLATE_LOADERS_def optional_list_def hiddenimports_extend
           split: option.splits)

lemma hiddenimports_block_DEFAULT_FILE_STORAGE:
  "hiddenimports (block_DEFAULT_FILE_STORAGE st s)
     = hiddenimports s @ class_contribution (DEFAULT_FILE_STORAGE st)"
  by (simp add: block_DEFAULT_FILE_STORAGE_def class_contribution_def Let_def
                hiddenimports_extend split: option.splits)

lemma template_step_eq:
  "template_step t s =
     (case template_BACKEND t of
        None \<Rightarrow> Inl (KeyError ''BACKEND'')
      | Some b \<Rightarrow> Inr (extend [remove_class b] s))"
  by (simp add: template_step_def dict_hasattr_OPTIONS Let_def split: option.splits)

lemma templates_loop_Inr:
  "list_all (\<lambda>t. template_BACKEND t \<noteq> None) ts \<Longrightarrow>
   \<exists>s'. templates_loop ts s = Inr s'
      \<and> hiddenimports s' = hiddenimports s @ concat (map template_backend_contribution ts)"
proof (induction ts arbitrary: s)
  case Nil
  then show ?case by simp
next
  case (Cons t ts)
  from Cons.prems obtain b where b: "template_BACKEND t = Some b" by auto
  from Cons.prems have "list_all (\<lambda>t. template_BACKEND t \<noteq> None) ts" by simp
  from Cons.IH [OF this, of "extend [remove_class b] s"] b
  show ?case
    by (auto simp: template_step_eq then_do_def template_backend_contribution_def
                   hiddenimports_extend)
qed

lemma templates_loop_Inl:
  "\<not> list_all (\<lambda>t. template_BACKEND t \<noteq> None) ts \<Longrightarrow>
   templates_loop ts s = Inl (KeyError ''BACKEND'')"
  by (induction ts arbitrary: s)
     (auto simp: template_step_eq then_do_def split: option.splits)

lemma databases_loop_Inr:
  "list_all (\<lambda>v. ENGINE v \<noteq> None) vs \<Longrightarrow>
   \<exists>s'. databases_loop vs s = Inr s'
      \<and> hiddenimports s' = hiddenimports s @ concat (map engine_contribution vs)"
proof (induction vs arbitrary: s)
  case Nil
  then show ?case by simp
next
  case (Cons v vs)
  from Cons.prems obtain e where e: "ENGINE v = Some e" by auto
  from Cons.prems have "list_all (\<lambda>v. ENGINE v \<noteq> None) vs" by simp
  from Cons.IH [OF this, of "extend [e] s"] e
  show ?case by (auto simp: engine_contribution_def hiddenimports_extend)
qed

lemma databases_loop_Inl:
  "\<not> list_all (\<lambda>v. ENGINE v \<noteq> None) vs \<Longrightarrow> databases_loop vs s = Inl (KeyError ''ENGINE'')"
  by (induction vs arbitrary: s) (auto split: option.splits)

lemma hiddenimports_app_step:
  "hiddenimports (app_step cs app s) = hiddenimports s @ app_contribution cs app"
  by (simp add: app_step_def app_contribution_def Let_def hiddenimports_extend)

lemma hiddenimports_apps_loop:
  "hiddenimports (apps_loop cs apps s) = hiddenimports s @ concat (map (app_contribution cs) apps)"
  by (induction apps arbitrary: s) (simp_all add: hiddenimports_app_step)

subsection \<open>The list before line 139\<close>

lemma collect_hiddenimports_runs_through:
  assumes "runs_through st"
  shows "collect_hiddenimports cs st = Inr (contributions cs st)"
proof -
  from assms obtain apps u d where
    apps: "INSTALLED_APPS st = Some apps" and u: "ROOT_URLCONF st = Some u"
    and d: "DATABASES st = Some d"
    and ts: "list_all (\<lambda>t. template_BACKEND t \<noteq> None) (optional_list (TEMPLATES st))"
    and vs: "list_all (\<lambda>v. ENGINE v \<noteq> None) (dict_values d)"
    by (auto simp: runs_through_def optional_values_def)
  define s1 where "s1 = block_TEMPLATE_LOADERS st (block_STORAGES st (block_CACHES st
     (block_TEMPLATES_options st (block_TEMPLATE_CONTEXT_PROCESSORS st
        \<lparr>hiddenimports = apps, cl = None\<rparr>))))"
  have l1: "lines_57_87 st = Inr s1"
    by (simp add: lines_57_87_def get_attribute_def then_do_def apps s1_def)
  have h1: "hiddenimports s1 = apps @ optional_list (TEMPLATE_CONTEXT_PROCESSORS st)
     @ concat (map get_context_processors (optional_list (TEMPLATES st)))
     @ concat (map cache_contribution (optional_values (CACHES st)))
     @ optional_list (TEMPLATE_LOADERS st)"
    by (simp add: s1_def hiddenimports_block_TEMPLATE_LOADERS hiddenimports_block_STORAGES
          hiddenimports_block_CACHES hiddenimports_block_TEMPLATES_options
          hiddenimports_block_TEMPLATE_CONTEXT_PROCESSORS)
  define s2 where "s2 = block_class_list (MIDDLEWARE st) (block_class_list (MIDDLEWARE_CLASSES st)
     (block_class_list (FILE_UPLOAD_HANDLERS st) (block_DEFAULT_FILE_STORAGE st
       (block_class_list (AUTHENTICATION_BACKENDS st) (extend [u] s1)))))"
  have l2: "lines_89_113 st s1 = Inr s2"
    by (simp add: lines_89_113_def get_attribute_def then_do_def u s2_def)
  have h2: "hiddenimports s2 = hiddenimports s1 @ [u]
     @ map remove_class (optional_list (AUTHENTICATION_BACKENDS st))
     @ class_contribution (DEFAULT_FILE_STORAGE st)
     @ map remove_class (optional_list (FILE_UPLOAD_HANDLERS st))
     @ map remove_class (optional_list (MIDDLEWARE_CLASSES st))
     @ map remove_class (optional_list (MIDDLEWARE st))"
    by (simp add: s2_def hiddenimports_block_class_list hiddenimports_block_DEFAULT_FILE_STORAGE
          hiddenimports_extend)
  obtain s3 where l3: "lines_115_125 st s2 = Inr s3"
    and h3: "hiddenimports s3 = hiddenimports s2
       @ concat (map template_backend_contribution (optional_list (TEMPLATES st)))"
  proof (cases "TEMPLATES st")
    case None
    then show ?thesis using that [of s2] by (simp add: lines_115_125_def optional_list_def)
  next
    case (Some tl)
    with ts have "list_all (\<lambda>t. template_BACKEND t \<noteq> None) tl" by (simp add: optional_list_def)
    from templates_loop_Inr [OF this, of s2] Some show ?thesis
      using that by (auto simp: lines_115_125_def optional_list_def)
  qed
  obtain s4 where l4: "lines_127_128 st s3 = Inr s4"
    and h4: "hiddenimports s4 = hiddenimports s3
       @ concat (map engine_contribution (optional_values (DATABASES st)))"
    using databases_loop_Inr [OF vs, of s3] d
    by (auto simp: lines_127_128_def get_attribute_def then_do_def optional_values_def)
  have l5: "lines_131_136 cs st s4 = Inr (apps_loop cs apps s4)"
    by (simp add: lines_131_136_def get_attribute_def then_do_def apps)
  have "collect_hiddenimports cs st = Inr (hiddenimports (apps_loop cs apps s4))"
    by (simp add: collect_hiddenimports_def l1 l2 l3 l4 l5 then_do_def)
  also have "hiddenimports (apps_loop cs apps s4) = contributions cs st"
    by (simp add: hiddenimports_apps_loop h4 h3 h2 h1 contributions_def apps u optional_list_def)
  finally show ?thesis .
qed

lemma collect_hiddenimports_eq:
  "collect_hiddenimports cs st =
     (if INSTALLED_APPS st = None then Inl (AttributeError ''INSTALLED_APPS'')
      else if ROOT_URLCONF st = None then Inl (AttributeError ''ROOT_URLCONF'')
      else if \<not> list_all (\<lambda>t. template_BACKEND t \<noteq> None) (optional_list (TEMPLATES st))
        then Inl (KeyError ''BACKEND'')
      else if DATABASES st = None then Inl (AttributeError ''DATABASES'')
      else if \<not> list_all (\<lambda>v. ENGINE v \<noteq> None) (optional_values (DATABASES st))
        then Inl (KeyError ''ENGINE'')
      else Inr (contributions cs st))"
proof (cases "runs_through st")
  case True
  from collect_hiddenimports_runs_through [OF this] True show ?thesis
    by (simp add: runs_through_def)
next
  case no: False
  show ?thesis
  proof (cases "INSTALLED_APPS st")
    case None
    then show ?thesis
      by (simp add: collect_hiddenimports_def lines_57_87_def get_attribute_def then_do_def)
  next
    case apps: (Some apps)
    show ?thesis
    proof (cases "ROOT_URLCONF st")
      case None
      then show ?thesis using apps
        by (simp add: collect_hiddenimports_def lines_57_87_def lines_89_113_def get_attribute_def
              then_do_def)
    next
      case u: (Some u)
      show ?thesis
      proof (cases "list_all (\<lambda>t. template_BACKEND t \<noteq> None) (optional_list (TEMPLATES st))")
        case False
        then obtain tl where tl: "TEMPLATES st = Some tl"
          and "\<not> list_all (\<lambda>t. template_BACKEND t \<noteq> None) tl"
          by (cases "TEMPLATES st") (auto simp: optional_list_def)
        then show ?thesis using apps u False
          by (simp add: collect_hiddenimports_def lines_57_87_def lines_89_113_def
                lines_115_125_def get_attribute_def then_do_def templates_loop_Inl)
      next
        case ts: True
        obtain s3 where l3:
          "then_do (lines_57_87 st) (\<lambda>s1. then_do (lines_89_113 st s1) (lines_115_125 st)) = Inr s3"
        proof (cases "TEMPLATES st")
          case None
          then show ?thesis using that apps u
            by (simp add: lines_57_87_def lines_89_113_def lines_115_125_def get_attribute_def
                  then_do_def)
        next
          case (Some tl)
          with ts have "list_all (\<lambda>t. template_BACKEND t \<noteq> None) tl"
            by (simp add: optional_list_def)
          from templates_loop_Inr [OF this] Some show ?thesis using that apps u
            by (simp add: lines_57_87_def lines_89_113_def lines_115_125_def get_attribute_def
                  then_do_def) metis
        qed
        show ?thesis
        proof (cases "DATABASES st")
          case None
          then show ?thesis using l3 apps u ts
            by (auto simp: collect_hiddenimports_def lines_127_128_def get_attribute_def then_do_def
                  split: sum.splits)
        next
          case (Some d)
          with no apps u ts have "\<not> list_all (\<lambda>v. ENGINE v \<noteq> None) (dict_values d)"
            by (simp add: runs_through_def optional_values_def)
          then show ?thesis using l3 Some apps u ts
            by (auto simp: collect_hiddenimports_def lines_127_128_def get_attribute_def then_do_def
                  databases_loop_Inl optional_values_def split: sum.splits)
        qed
      qed
    qed
  qed
qed

subsection \<open>The results of a run\<close>

lemma django_Inr_iff:
  "django_dottedstring_imports cs st (Inr out)
     \<longleftrightarrow> runs_through st \<and> list_of_set (contributions cs st) out"
  by (simp add: django_dottedstring_imports_def collect_hiddenimports_eq runs_through_def)

lemma django_Inl_iff:
  "django_dottedstring_imports cs st (Inl e) \<longleftrightarrow> collect_hiddenimports cs st = Inl e"
  by (auto simp: django_dottedstring_imports_def split: sum.splits)

lemma list_of_set_remdups: "list_of_set xs (remdups xs)"
  by (simp add: list_of_set_def)

lemma list_of_set_iff_mset: "list_of_set xs ys \<longleftrightarrow> mset ys = mset (remdups xs)"
proof
  assume "list_of_set xs ys"
  then have "distinct ys" and "set ys = set xs" by (simp_all add: list_of_set_def)
  then show "mset ys = mset (remdups xs)"
    by (metis distinct_remdups set_eq_iff_mset_eq_distinct set_remdups)
next
  assume eq: "mset ys = mset (remdups xs)"
  then have "distinct ys" by (metis distinct_remdups mset_eq_imp_distinct_iff)
  moreover from eq have "set ys = set xs" by (metis mset_eq_setD set_remdups)
  ultimately show "list_of_set xs ys" by (simp add: list_of_set_def)
qed

subsection \<open>The example settings\<close>

lemma example_runs_through: "runs_through example_settings"
  by (simp add: runs_through_def example_settings_def optional_list_def optional_values_def
        dict_values_def)

lemma example_contributions:
  "contributions example_submodules example_settings =
     [''django.contrib.auth'', ''blog'', ''blog.context.site'',
      ''django.contrib.auth.context_processors.auth'', ''django_redis.cache'',
      ''django_redis.client'', ''django.template.loaders.filesystem.Loader'', ''mysite.urls'',
      ''django.contrib.auth.backends'', ''django.core.files.storage'',
      ''django.core.files.uploadhandler'', ''django.middleware.common'',
      ''django.middleware.gzip'', [], ''django.template.backends.django'',
      ''django.db.backends.sqlite3'', ''django.contrib.auth.templatetags'',
      ''django.contrib.auth.context_processors'', ''blog.templatetags'', ''blog.templatetags'',
      ''blog.templatetags.blog_extras'', ''blog.context_processors'']"
  by (simp add: contributions_def example_settings_def example_submodules_def optional_list_def
        optional_values_def dict_values_def get_context_processors_def cache_contribution_def
        class_contribution_def get_client_class_def template_backend_contribution_def
        engine_contribution_def app_contribution_def remove_class_def slice_0_m1_def)

lemma example_distinct: "distinct example_output"
  by (simp add: example_output_def)

lemma example_run:
  "django_dottedstring_imports example_submodules example_settings (Inr example_output)"
  unfolding django_Inr_iff list_of_set_def example_contributions
  using example_runs_through example_distinct
  by (simp add: example_output_def insert_commute)

lemma minimal_runs_through: "runs_through minimal_settings"
  by (simp add: runs_through_def minimal_settings_def optional_list_def optional_values_def
        dict_values_def)

lemma minimal_contributions: "contributions cs minimal_settings = [''mysite.urls'']"
  by (simp add: contributions_def minimal_settings_def optional_list_def optional_values_def
        dict_values_def class_contribution_def)

lemma django_cong:
  "collect_hiddenimports cs st = collect_hiddenimports cs' st' \<Longrightarrow>
   django_dottedstring_imports cs st = django_dottedstring_imports cs' st'"
  by (rule ext) (simp add: django_dottedstring_imports_def)

lemma django_result_exists:
  "runs_through st \<Longrightarrow>
   django_dottedstring_imports cs st (Inr (remdups (contributions cs st)))"
  by (simp add: django_Inr_iff list_of_set_remdups)

lemma django_no_exception: "runs_through st \<Longrightarrow> \<not> django_dottedstring_imports cs st (Inl e)"
  by (simp add: django_Inl_iff collect_hiddenimports_runs_through)

lemma django_no_AttributeError:
  "INSTALLED_APPS st \<noteq> None \<Longrightarrow> ROOT_URLCONF st \<noteq> None \<Longrightarrow> DATABASES st \<noteq> None \<Longrightarrow>
   \<not> django_dottedstring_imports cs st (Inl (AttributeError name))"
  by (auto simp: django_Inl_iff collect_hiddenimports_eq)

lemma set_contributions:
  "set (contributions cs st) =
     set (optional_list (INSTALLED_APPS st))
     \<union> set (optional_list (TEMPLATE_CONTEXT_PROCESSORS st))
     \<union> (\<Union>t \<in> set (optional_list (TEMPLATES st)). set (get_context_processors t))
     \<union> (\<Union>c \<in> set (optional_values (CACHES st)). set (cache_contribution c))
     \<union> set (optional_list (TEMPLATE_LOADERS st))
     \<union> set (optional_list (map_option (\<lambda>u. [u]) (ROOT_URLCONF st)))
     \<union> remove_class ` set (optional_list (AUTHENTICATION_BACKENDS st))
     \<union> set (class_contribution (DEFAULT_FILE_STORAGE st))
     \<union> remove_class ` set (optional_list (FILE_UPLOAD_HANDLERS st))
     \<union> remove_class ` set (optional_list (MIDDLEWARE_CLASSES st))
     \<union> remove_class ` set (optional_list (MIDDLEWARE st))
     \<union> (\<Union>t \<in> set (optional_list (TEMPLATES st)). set (template_backend_contribution t))
     \<union> (\<Union>v \<in> set (optional_values (DATABASES st)). set (engine_contribution v))
     \<union> (\<Union>app \<in> set (optional_list (INSTALLED_APPS st)). set (app_contribution cs app))"
  by (simp add: contributions_def Un_assoc)

lemma django_set:
  "django_dottedstring_imports cs st (Inr out) \<Longrightarrow> set out = set (contributions cs st)"
  by (simp add: django_Inr_iff list_of_set_def)

lemma without_urlconf_raises:
  "collect_hiddenimports cs settings_without_urlconf = Inl (AttributeError ''ROOT_URLCONF'')"
  by (simp add: collect_hiddenimports_eq settings_without_urlconf_def minimal_settings_def)

lemma with_database_runs_through: "runs_through settings_with_database"
  by (simp add: runs_through_def settings_with_database_def minimal_settings_def
        optional_list_def optional_values_def dict_values_def)

lemma with_database_contributions:
  "contributions cs settings_with_database = [''mysite.urls'', ''django.db.backends.sqlite3'']"
  by (simp add: contributions_def settings_with_database_def minimal_settings_def
        optional_list_def optional_values_def dict_values_def class_contribution_def
        engine_contribution_def)

lemma with_database_run_1:
  "django_dottedstring_imports no_submodules settings_with_database
     (Inr [''mysite.urls'', ''django.db.backends.sqlite3''])"
  by (simp add: django_Inr_iff with_database_runs_through with_database_contributions
        list_of_set_def)

lemma with_database_run_2:
  "django_dottedstring_imports no_submodules settings_with_database
     (Inr [''django.db.backends.sqlite3'', ''mysite.urls''])"
  by (simp add: django_Inr_iff with_database_runs_through with_database_contributions
        list_of_set_def insert_commute)

lemma with_empty_storage_run:
  "django_dottedstring_imports no_submodules settings_with_empty_storage (Inr [''mysite.urls''])"
  by (simp add: django_Inr_iff list_of_set_def runs_through_def contributions_def
        settings_with_empty_storage_def minimal_settings_def optional_list_def
        optional_values_def dict_values_def class_contribution_def)

lemma minimal_run:
  "django_dottedstring_imports no_submodules minimal_settings (Inr [''mysite.urls''])"
  by (simp add: django_Inr_iff list_of_set_def minimal_runs_through minimal_contributions)

lemma in_optional_list: "v = Some xs \<Longrightarrow> x \<in> set xs \<Longrightarrow> x \<in> set (optional_list v)"
  by (simp add: optional_list_def)

lemma in_optional_values:
  "v = Some d \<Longrightarrow> x \<in> set (dict_values d) \<Longrightarrow> x \<in> set (optional_values v)"
  by (simp add: optional_values_def)

lemma example_fields:
  "INSTALLED_APPS example_settings = Some [''django.contrib.auth'', ''blog'']"
  "TEMPLATE_CONTEXT_PROCESSORS example_settings = Some [''blog.context.site'']"
  "TEMPLATE_LOADERS example_settings = Some [''django.template.loaders.filesystem.Loader'']"
  "ROOT_URLCONF example_settings = Some ''mysite.urls''"
  "DATABASES example_settings = Some [(''default'', \<lparr>ENGINE = Some ''django.db.backends.sqlite3''\<rparr>)]"
  "MIDDLEWARE example_settings = Some [''django.middleware.gzip.GZipMiddleware'', ''whitenoise'']"
  "AUTHENTICATION_BACKENDS example_settings = Some [''django.contrib.auth.backends.ModelBackend'']"
  "DEFAULT_FILE_STORAGE example_settings = Some ''django.core.files.storage.FileSystemStorage''"
  "TEMPLATES example_settings = Some
        [\<lparr>template_BACKEND = Some ''django.template.backends.django.DjangoTemplates'',
          template_OPTIONS = Some
            \<lparr>context_processors = Some [''django.contrib.auth.context_processors.auth'']\<rparr>\<rparr>]"
  by (simp_all add: example_settings_def)

lemma collect_hiddenimports_STORAGES:
  "collect_hiddenimports cs (st\<lparr>STORAGES := v\<rparr>) = collect_hiddenimports cs st"
  by (simp add: collect_hiddenimports_eq contributions_def)

lemma optional_list_without_template_options:
  "optional_list (TEMPLATES (without_template_options st))
     = map (\<lambda>t. t\<lparr>template_OPTIONS := None\<rparr>) (optional_list (TEMPLATES st))"
  by (cases "TEMPLATES st") (simp_all add: without_template_options_def optional_list_def)

lemma runs_through_without_template_options:
  "runs_through (without_template_options st) = runs_through st"
  by (simp add: runs_through_def optional_list_without_template_options list_all_iff)
     (simp add: without_template_options_def)

lemma set_contributions_without_template_options:
  "set (contributions cs st)
     = set (contributions cs (without_template_options st))
       \<union> (\<Union>t \<in> set (optional_list (TEMPLATES st)). set (get_context_processors t))"
proof -
  have other: "INSTALLED_APPS (without_template_options st) = INSTALLED_APPS st"
    "TEMPLATE_CONTEXT_PROCESSORS (without_template_options st) = TEMPLATE_CONTEXT_PROCESSORS st"
    "CACHES (without_template_options st) = CACHES st"
    "TEMPLATE_LOADERS (without_template_options st) = TEMPLATE_LOADERS st"
    "ROOT_URLCONF (without_template_options st) = ROOT_URLCONF st"
    "AUTHENTICATION_BACKENDS (without_template_options st) = AUTHENTICATION_BACKENDS st"
    "DEFAULT_FILE_STORAGE (without_template_options st) = DEFAULT_FILE_STORAGE st"
    "FILE_UPLOAD_HANDLERS (without_template_options st) = FILE_UPLOAD_HANDLERS st"
    "MIDDLEWARE_CLASSES (without_template_options st) = MIDDLEWARE_CLASSES st"
    "MIDDLEWARE (without_template_options st) = MIDDLEWARE st"
    "DATABASES (without_template_options st) = DATABASES st"
    by (simp_all add: without_template_options_def)
  have none: "get_context_processors (t\<lparr>template_OPTIONS := None\<rparr>) = []" for t
    by (simp add: get_context_processors_def)
  have same: "template_backend_contribution (t\<lparr>template_OPTIONS := None\<rparr>)
                = template_backend_contribution t" for t
    by (simp add: template_backend_contribution_def)
  show ?thesis
    unfolding set_contributions other optional_list_without_template_options
    by (simp add: none same) blast
qed

subsection \<open>Class names and module names\<close>

lemma class_contribution_nonempty_value:
  "class_contribution v = map remove_class (nonempty_value v)"
  by (simp add: class_contribution_def nonempty_value_def split: option.splits)

lemma cache_contribution_class_names:
  "cache_contribution c = map remove_class (cache_class_names c)"
  by (simp add: cache_contribution_def cache_class_names_def class_contribution_nonempty_value)

lemma template_backend_contribution_class_names:
  "template_backend_contribution t = map remove_class (template_class_names t)"
  by (simp add: template_backend_contribution_def template_class_names_def split: option.splits)

lemma set_contributions_split:
  "set (contributions cs st) = set (module_names cs st) \<union> remove_class ` set (class_names st)"
  unfolding contributions_def module_names_def class_names_def
    class_contribution_nonempty_value cache_contribution_class_names
    template_backend_contribution_class_names
  by (simp add: image_Un image_UN) blast

lemma example_module_names:
  "module_names example_submodules example_settings =
     [''django.contrib.auth'', ''blog'', ''blog.context.site'',
      ''django.contrib.auth.context_processors.auth'',
      ''django.template.loaders.filesystem.Loader'', ''mysite.urls'',
      ''django.db.backends.sqlite3'', ''django.contrib.auth.templatetags'',
      ''django.contrib.auth.context_processors'', ''blog.templatetags'', ''blog.templatetags'',
      ''blog.templatetags.blog_extras'', ''blog.context_processors'']"
  by (simp add: module_names_def example_settings_def example_submodules_def optional_list_def
        optional_values_def dict_values_def get_context_processors_def engine_contribution_def
        app_contribution_def)

lemma example_class_names:
  "class_names example_settings =
     [''django_redis.cache.RedisCache'', ''django_redis.client.DefaultClient'',
      ''django.contrib.auth.backends.ModelBackend'',
      ''django.core.files.storage.FileSystemStorage'',
      ''django.core.files.uploadhandler.MemoryFileUploadHandler'',
      ''django.middleware.common.CommonMiddleware'', ''django.middleware.gzip.GZipMiddleware'',
      ''whitenoise'', ''django.template.backends.django.DjangoTemplates'']"
  by (simp add: class_names_def example_settings_def optional_list_def optional_values_def
        dict_values_def cache_class_names_def template_class_names_def nonempty_value_def
        get_client_class_def)

section \<open>The claims\<close>

text \<open>
  C1. The list that a run returns holds no module name twice.
\<close>

theorem C1_no_duplicates:
  "django_dottedstring_imports collect_submodules st (Inr out) \<Longrightarrow> distinct out"
  by (simp add: django_Inr_iff list_of_set_def)

text \<open>The example output is a result for the example settings.\<close>

theorem C1_no_duplicates_witness:
  "django_dottedstring_imports example_submodules example_settings (Inr example_output)
     \<and> distinct example_output"
  using C1_no_duplicates [OF example_run] example_run by simp

text \<open>
  C2 says that no absent attribute makes the function fail. As stated this does not hold:
  line 89 reads \<open>settings.ROOT_URLCONF\<close> without a guard, and Django gives this
  setting no default. On settings without it the run ends with AttributeError.
\<close>

theorem C2_counterexample:
  "ROOT_URLCONF settings_without_urlconf = None
   \<and> django_dottedstring_imports no_submodules settings_without_urlconf
        (Inl (AttributeError ''ROOT_URLCONF''))"
  by (simp add: django_Inl_iff without_urlconf_raises)
     (simp add: settings_without_urlconf_def)

text \<open>
  C2, amended. The attributes that the code reads behind \<open>hasattr\<close>, or with a default,
  are skipped when they are absent. On settings that have \<open>INSTALLED_APPS\<close>,
  \<open>ROOT_URLCONF\<close> and \<open>DATABASES\<close> no run raises AttributeError; when moreover every
  template has the key \<open>BACKEND\<close> and every database the key \<open>ENGINE\<close>, a run returns
  a list and raises nothing. An absent guarded attribute contributes nothing: the runs are
  those on the settings where the attribute is there and empty.
\<close>

theorem C2_guarded_attributes_skipped:
  "(runs_through st \<longrightarrow>
      (\<exists>out. django_dottedstring_imports collect_submodules st (Inr out))
      \<and> (\<forall>e. \<not> django_dottedstring_imports collect_submodules st (Inl e)))
   \<and> (INSTALLED_APPS st \<noteq> None \<and> ROOT_URLCONF st \<noteq> None \<and> DATABASES st \<noteq> None \<longrightarrow>
      (\<forall>name. \<not> django_dottedstring_imports collect_submodules st (Inl (AttributeError name))))
   \<and> django_dottedstring_imports collect_submodules (st\<lparr>TEMPLATE_CONTEXT_PROCESSORS := None\<rparr>)
       = django_dottedstring_imports collect_submodules (st\<lparr>TEMPLATE_CONTEXT_PROCESSORS := Some []\<rparr>)
   \<and> django_dottedstring_imports collect_submodules (st\<lparr>TEMPLATES := None\<rparr>)
       = django_dottedstring_imports collect_submodules (st\<lparr>TEMPLATES := Some []\<rparr>)
   \<and> django_dottedstring_imports collect_submodules (st\<lparr>CACHES := None\<rparr>)
       = django_dottedstring_imports collect_submodules (st\<lparr>CACHES := Some []\<rparr>)
   \<and> django_dottedstring_imports collect_submodules (st\<lparr>STORAGES := None\<rparr>)
       = django_dottedstring_imports collect_submodules (st\<lparr>STORAGES := Some []\<rparr>)
   \<and> django_dottedstring_imports collect_submodules (st\<lparr>TEMPLATE_LOADERS := None\<rparr>)
       = django_dottedstring_imports collect_submodules (st\<lparr>TEMPLATE_LOADERS := Some []\<rparr>)
   \<and> django_dottedstring_imports collect_submodules (st\<lparr>AUTHENTICATION_BACKENDS := None\<rparr>)
       = django_dottedstring_imports collect_submodules (st\<lparr>AUTHENTICATION_BACKENDS := Some []\<rparr>)
   \<and> django_dottedstring_imports collect_submodules (st\<lparr>DEFAULT_FILE_STORAGE := None\<rparr>)
       = django_dottedstring_imports collect_submodules (st\<lparr>DEFAULT_FILE_STORAGE := Some []\<rparr>)
   \<and> django_dottedstring_imports collect_submodules (st\<lparr>FILE_UPLOAD_HANDLERS := None\<rparr>)
       = django_dottedstring_imports collect_submodules (st\<lparr>FILE_UPLOAD_HANDLERS := Some []\<rparr>)
   \<and> django_dottedstring_imports collect_submodules (st\<lparr>MIDDLEWARE_CLASSES := None\<rparr>)
       = django_dottedstring_imports collect_submodules (st\<lparr>MIDDLEWARE_CLASSES := Some []\<rparr>)
   \<and> django_dottedstring_imports collect_submodules (st\<lparr>MIDDLEWARE := None\<rparr>)
       = django_dottedstring_imports collect_submodules (st\<lparr>MIDDLEWARE := Some []\<rparr>)"
proof -
  have absent: "django_dottedstring_imports collect_submodules st1
                  = django_dottedstring_imports collect_submodules st2"
    if "INSTALLED_APPS st1 = INSTALLED_APPS st2" "ROOT_URLCONF st1 = ROOT_URLCONF st2"
       "DATABASES st1 = DATABASES st2"
       "optional_list (TEMPLATES st1) = optional_list (TEMPLATES st2)"
       "contributions collect_submodules st1 = contributions collect_submodules st2"
    for st1 st2
    using that by (intro django_cong) (simp add: collect_hiddenimports_eq)
  show ?thesis
    by (intro conjI impI allI absent)
       (auto simp: django_no_exception django_no_AttributeError contributions_def
          optional_list_def optional_values_def dict_values_def class_contribution_def
          intro: django_result_exists)
qed

text \<open>
  The smallest settings have none of the guarded attributes, and a run on them returns.
\<close>

theorem C2_guarded_attributes_skipped_witness:
  "runs_through minimal_settings
   \<and> MIDDLEWARE minimal_settings = None \<and> CACHES minimal_settings = None
   \<and> (\<exists>out. django_dottedstring_imports no_submodules minimal_settings (Inr out))
   \<and> \<not> django_dottedstring_imports no_submodules minimal_settings
         (Inl (AttributeError ''MIDDLEWARE''))"
proof -
  have absent: "MIDDLEWARE minimal_settings = None" "CACHES minimal_settings = None"
    by (simp_all add: minimal_settings_def)
  from C2_guarded_attributes_skipped [of minimal_settings no_submodules] minimal_runs_through
  have "(\<exists>out. django_dottedstring_imports no_submodules minimal_settings (Inr out))
      \<and> \<not> django_dottedstring_imports no_submodules minimal_settings
            (Inl (AttributeError ''MIDDLEWARE''))"
    by blast
  with absent minimal_runs_through show ?thesis by simp
qed

text \<open>
  C3 says that two runs on the same settings return the same list, in the same order. The
  elements are fixed, the order is not: line 139 takes it from the iteration of a set of
  strings. On the settings with one database both orders of the two module names are
  results.
\<close>

theorem C3_counterexample:
  "django_dottedstring_imports no_submodules settings_with_database
     (Inr [''mysite.urls'', ''django.db.backends.sqlite3''])
   \<and> django_dottedstring_imports no_submodules settings_with_database
     (Inr [''django.db.backends.sqlite3'', ''mysite.urls''])
   \<and> [''mysite.urls'', ''django.db.backends.sqlite3'']
       \<noteq> [''django.db.backends.sqlite3'', ''mysite.urls'']"
  using with_database_run_1 with_database_run_2 by simp

text \<open>
  C3, amended. Two runs on the same settings, with the same answers of
  \<open>collect_submodules\<close>, either raise the same exception or return lists with the same
  elements, each of them once; the lists can differ in their order only.
\<close>

theorem C3_same_elements:
  "django_dottedstring_imports collect_submodules st r1 \<Longrightarrow>
   django_dottedstring_imports collect_submodules st r2 \<Longrightarrow>
   (case r1 of
      Inl e1 \<Rightarrow> r2 = Inl e1
    | Inr out1 \<Rightarrow> (case r2 of Inl e2 \<Rightarrow> False | Inr out2 \<Rightarrow> mset out1 = mset out2))"
  by (auto simp: django_dottedstring_imports_def list_of_set_iff_mset split: sum.splits)

text \<open>The two results of the settings with one database hold the same elements.\<close>

theorem C3_same_elements_witness:
  "django_dottedstring_imports no_submodules settings_with_database
     (Inr [''mysite.urls'', ''django.db.backends.sqlite3''])
   \<and> django_dottedstring_imports no_submodules settings_with_database
     (Inr [''django.db.backends.sqlite3'', ''mysite.urls''])
   \<and> mset [''mysite.urls'', ''django.db.backends.sqlite3'']
       = mset [''django.db.backends.sqlite3'', ''mysite.urls'']"
  using C3_same_elements [OF with_database_run_1 with_database_run_2]
    with_database_run_1 with_database_run_2
  by simp

text \<open>
  C4 says that each value of \<open>DEFAULT_FILE_STORAGE\<close>, of a cache's \<open>BACKEND\<close> and of
  its \<open>CLIENT_CLASS\<close> contributes its module path. These three are behind
  \<open>if value:\<close>, which is false for the empty string: an empty
  \<open>DEFAULT_FILE_STORAGE\<close> contributes nothing, while its stripped form is the empty
  string.
\<close>

theorem C4_counterexample:
  "DEFAULT_FILE_STORAGE settings_with_empty_storage = Some []
   \<and> django_dottedstring_imports no_submodules settings_with_empty_storage (Inr [''mysite.urls''])
   \<and> remove_class [] \<notin> set [''mysite.urls'']"
  using with_empty_storage_run
  by (simp add: settings_with_empty_storage_def remove_class_def slice_0_m1_def)

text \<open>
  C4, amended. In the list a run returns there is, with its last component removed,
  every entry of \<open>AUTHENTICATION_BACKENDS\<close>, \<open>FILE_UPLOAD_HANDLERS\<close>,
  \<open>MIDDLEWARE_CLASSES\<close> and \<open>MIDDLEWARE\<close>, every \<open>BACKEND\<close> of a template, and
  every value of \<open>DEFAULT_FILE_STORAGE\<close>, of a cache's \<open>BACKEND\<close> and of its
  \<open>OPTIONS.CLIENT_CLASS\<close> that is not the empty string. Removing the last component of
  \<open>m.c\<close>, where \<open>c\<close> has no dot, leaves \<open>m\<close>.

  The full class names are not contributed. Each of the blocks appends the stripped
  strings and nothing else: the block of a list setting, the block of
  \<open>DEFAULT_FILE_STORAGE\<close>, the step of the loop over the caches and the step of the
  loop over the templates. And the elements of the returned list are the module names that
  the other settings give, together with the stripped class names: a full class name is in
  the list only when it is also one of those.
\<close>

theorem C4_module_paths:
  assumes "django_dottedstring_imports collect_submodules st (Inr out)"
  shows "(\<forall>xs x. AUTHENTICATION_BACKENDS st = Some xs \<or> FILE_UPLOAD_HANDLERS st = Some xs
              \<or> MIDDLEWARE_CLASSES st = Some xs \<or> MIDDLEWARE st = Some xs \<longrightarrow>
            x \<in> set xs \<longrightarrow> remove_class x \<in> set out)
       \<and> (\<forall>v. DEFAULT_FILE_STORAGE st = Some v \<longrightarrow> v \<noteq> [] \<longrightarrow> remove_class v \<in> set out)
       \<and> (\<forall>d c b. CACHES st = Some d \<longrightarrow> c \<in> set (dict_values d) \<longrightarrow>
            cache_BACKEND c = Some b \<longrightarrow> b \<noteq> [] \<longrightarrow> remove_class b \<in> set out)
       \<and> (\<forall>d c opts b. CACHES st = Some d \<longrightarrow> c \<in> set (dict_values d) \<longrightarrow>
            cache_OPTIONS c = Some opts \<longrightarrow> CLIENT_CLASS opts = Some b \<longrightarrow> b \<noteq> [] \<longrightarrow>
            remove_class b \<in> set out)
       \<and> (\<forall>ts t b. TEMPLATES st = Some ts \<longrightarrow> t \<in> set ts \<longrightarrow> template_BACKEND t = Some b \<longrightarrow>
            remove_class b \<in> set out)
       \<and> (\<forall>m c. CHR ''.'' \<notin> set c \<longrightarrow> remove_class (m @ ''.'' @ c) = m)
       \<and> (\<forall>xs s. hiddenimports (block_class_list (Some xs) s)
                  = hiddenimports s @ map remove_class xs)
       \<and> (\<forall>s. hiddenimports (block_DEFAULT_FILE_STORAGE st s)
                = hiddenimports s @ map remove_class (nonempty_value (DEFAULT_FILE_STORAGE st)))
       \<and> (\<forall>c s. hiddenimports (cache_step c s)
                  = hiddenimports s
                    @ map remove_class (nonempty_value (cache_BACKEND c))
                    @ map remove_class (nonempty_value (get_client_class c)))
       \<and> (\<forall>t s. template_step t s =
                (case template_BACKEND t of
                   None \<Rightarrow> Inl (KeyError ''BACKEND'')
                 | Some b \<Rightarrow> Inr (extend [remove_class b] s)))
       \<and> set out = set (module_names collect_submodules st)
                     \<union> remove_class ` set (class_names st)"
proof -
  note out = django_set [OF assms]
  have lists: "remove_class x \<in> set out"
    if "AUTHENTICATION_BACKENDS st = Some xs \<or> FILE_UPLOAD_HANDLERS st = Some xs
          \<or> MIDDLEWARE_CLASSES st = Some xs \<or> MIDDLEWARE st = Some xs" "x \<in> set xs" for xs x
    using that by (auto simp: out set_contributions optional_list_def)
  have storage: "remove_class v \<in> set out" if "DEFAULT_FILE_STORAGE st = Some v" "v \<noteq> []" for v
    using that by (simp add: out set_contributions class_contribution_def)
  have backend: "remove_class b \<in> set out"
    if "CACHES st = Some d" "c \<in> set (dict_values d)" "cache_BACKEND c = Some b" "b \<noteq> []"
    for d c b
  proof -
    from that have "remove_class b \<in> set (cache_contribution c)"
      by (simp add: cache_contribution_def class_contribution_def)
    with in_optional_values [OF that(1,2)] show ?thesis
      by (auto simp: out set_contributions)
  qed
  have client: "remove_class b \<in> set out"
    if "CACHES st = Some d" "c \<in> set (dict_values d)" "cache_OPTIONS c = Some opts"
       "CLIENT_CLASS opts = Some b" "b \<noteq> []" for d c opts b
  proof -
    from that have "remove_class b \<in> set (cache_contribution c)"
      by (simp add: cache_contribution_def class_contribution_def get_client_class_def)
    with in_optional_values [OF that(1,2)] show ?thesis
      by (auto simp: out set_contributions)
  qed
  have template: "remove_class b \<in> set out"
    if "TEMPLATES st = Some ts" "t \<in> set ts" "template_BACKEND t = Some b" for ts t b
  proof -
    from that have "remove_class b \<in> set (template_backend_contribution t)"
      by (simp add: template_backend_contribution_def)
    with in_optional_list [OF that(1,2)] show ?thesis
      by (auto simp: out set_contributions)
  qed
  have block: "hiddenimports (block_class_list (Some xs) s) = hiddenimports s @ map remove_class xs"
    for xs s
    by (simp add: hiddenimports_block_class_list optional_list_def)
  have storage_block: "hiddenimports (block_DEFAULT_FILE_STORAGE st s)
       = hiddenimports s @ map remove_class (nonempty_value (DEFAULT_FILE_STORAGE st))" for s
    by (simp add: hiddenimports_block_DEFAULT_FILE_STORAGE class_contribution_nonempty_value)
  have cache_block: "hiddenimports (cache_step c s)
       = hiddenimports s @ map remove_class (nonempty_value (cache_BACKEND c))
           @ map remove_class (nonempty_value (get_client_class c))" for c s
    by (simp add: hiddenimports_cache_step cache_contribution_def
          class_contribution_nonempty_value)
  have exact: "set out = set (module_names collect_submodules st)
                     \<union> remove_class ` set (class_names st)"
    by (simp add: out set_contributions_split)
  have helper: "\<forall>m c. CHR ''.'' \<notin> set c \<longrightarrow> remove_class (m @ ''.'' @ c) = m"
    using remove_class_dotted by blast
  have c1: "\<forall>xs x. AUTHENTICATION_BACKENDS st = Some xs \<or> FILE_UPLOAD_HANDLERS st = Some xs
              \<or> MIDDLEWARE_CLASSES st = Some xs \<or> MIDDLEWARE st = Some xs \<longrightarrow>
            x \<in> set xs \<longrightarrow> remove_class x \<in> set out"
    using lists by blast
  have c2: "\<forall>v. DEFAULT_FILE_STORAGE st = Some v \<longrightarrow> v \<noteq> [] \<longrightarrow> remove_class v \<in> set out"
    using storage by blast
  have c3: "\<forall>d c b. CACHES st = Some d \<longrightarrow> c \<in> set (dict_values d) \<longrightarrow>
            cache_BACKEND c = Some b \<longrightarrow> b \<noteq> [] \<longrightarrow> remove_class b \<in> set out"
    using backend by blast
  have c4: "\<forall>d c opts b. CACHES st = Some d \<longrightarrow> c \<in> set (dict_values d) \<longrightarrow>
            cache_OPTIONS c = Some opts \<longrightarrow> CLIENT_CLASS opts = Some b \<longrightarrow> b \<noteq> [] \<longrightarrow>
            remove_class b \<in> set out"
    using client by blast
  have c5: "\<forall>ts t b. TEMPLATES st = Some ts \<longrightarrow> t \<in> set ts \<longrightarrow> template_BACKEND t = Some b \<longrightarrow>
            remove_class b \<in> set out"
    using template by blast
  have c7: "\<forall>xs s. hiddenimports (block_class_list (Some xs) s)
                  = hiddenimports s @ map remove_class xs"
    using block by blast
  have c8: "\<forall>s. hiddenimports (block_DEFAULT_FILE_STORAGE st s)
                = hiddenimports s @ map remove_class (nonempty_value (DEFAULT_FILE_STORAGE st))"
    using storage_block by blast
  have c9: "\<forall>c s. hiddenimports (cache_step c s)
                  = hiddenimports s
                    @ map remove_class (nonempty_value (cache_BACKEND c))
                    @ map remove_class (nonempty_value (get_client_class c))"
    using cache_block by blast
  have c10: "\<forall>t s. template_step t s =
                (case template_BACKEND t of
                   None \<Rightarrow> Inl (KeyError ''BACKEND'')
                 | Some b \<Rightarrow> Inr (extend [remove_class b] s))"
    using template_step_eq by blast
  show ?thesis
    using c1 c2 c3 c4 c5 helper c7 c8 c9 c10 exact by (intro conjI) assumption+
qed

text \<open>
  In the example the authentication backend and the file storage appear as their module
  paths, and the full name of the storage class is not in the output.
\<close>

theorem C4_module_paths_witness:
  "django_dottedstring_imports example_submodules example_settings (Inr example_output)
   \<and> AUTHENTICATION_BACKENDS example_settings = Some [''django.contrib.auth.backends.ModelBackend'']
   \<and> DEFAULT_FILE_STORAGE example_settings = Some ''django.core.files.storage.FileSystemStorage''
   \<and> remove_class ''django.contrib.auth.backends.ModelBackend'' \<in> set example_output
   \<and> remove_class ''django.core.files.storage.FileSystemStorage'' \<in> set example_output
   \<and> remove_class (''django.contrib.auth.backends'' @ ''.'' @ ''ModelBackend'')
        = ''django.contrib.auth.backends''
   \<and> set example_output = set (module_names example_submodules example_settings)
                           \<union> remove_class ` set (class_names example_settings)
   \<and> ''django.core.files.storage.FileSystemStorage'' \<notin> set example_output"
proof -
  note inst = C4_module_paths [OF example_run]
  note lists = inst [THEN conjunct1]
  note storage = inst [THEN conjunct2, THEN conjunct1]
  note dotted = inst [THEN conjunct2, THEN conjunct2, THEN conjunct2, THEN conjunct2,
      THEN conjunct2, THEN conjunct1]
  note exact = inst [THEN conjunct2, THEN conjunct2, THEN conjunct2, THEN conjunct2,
      THEN conjunct2, THEN conjunct2, THEN conjunct2, THEN conjunct2, THEN conjunct2,
      THEN conjunct2]
  from lists example_fields(7)
  have auth: "remove_class ''django.contrib.auth.backends.ModelBackend'' \<in> set example_output"
    by (metis list.set_intros(1))
  from storage example_fields(8)
  have stor: "remove_class ''django.core.files.storage.FileSystemStorage'' \<in> set example_output"
    by (metis list.distinct(1))
  have "CHR ''.'' \<notin> set ''ModelBackend''" by simp
  with dotted
  have path: "remove_class (''django.contrib.auth.backends'' @ ''.'' @ ''ModelBackend'')
          = ''django.contrib.auth.backends''"
    by blast
  have "''django.core.files.storage.FileSystemStorage''
          \<notin> set (module_names example_submodules example_settings)
              \<union> remove_class ` set (class_names example_settings)"
    unfolding example_module_names example_class_names
    by (simp add: remove_class_def slice_0_m1_def)
  with exact have full: "''django.core.files.storage.FileSystemStorage'' \<notin> set example_output"
    by simp
  show ?thesis
    using example_run example_fields(7,8) auth stor path exact full
    by (intro conjI) assumption+
qed

text \<open>
  C5. In the list a run returns, every entry of \<open>INSTALLED_APPS\<close>, every entry of
  \<open>TEMPLATE_CONTEXT_PROCESSORS\<close> and of \<open>TEMPLATE_LOADERS\<close> when they are present, the
  value of \<open>ROOT_URLCONF\<close> and the \<open>ENGINE\<close> of every database appear unchanged. A run
  that returns has found the three unguarded attributes and an \<open>ENGINE\<close> in every
  database.
\<close>

theorem C5_verbatim_entries:
  assumes "django_dottedstring_imports collect_submodules st (Inr out)"
  shows "(\<forall>apps. INSTALLED_APPS st = Some apps \<longrightarrow> set apps \<subseteq> set out)
       \<and> (\<forall>ps. TEMPLATE_CONTEXT_PROCESSORS st = Some ps \<longrightarrow> set ps \<subseteq> set out)
       \<and> (\<forall>ls. TEMPLATE_LOADERS st = Some ls \<longrightarrow> set ls \<subseteq> set out)
       \<and> (\<forall>u. ROOT_URLCONF st = Some u \<longrightarrow> u \<in> set out)
       \<and> (\<forall>d v e. DATABASES st = Some d \<longrightarrow> v \<in> set (dict_values d) \<longrightarrow> ENGINE v = Some e \<longrightarrow>
            e \<in> set out)
       \<and> INSTALLED_APPS st \<noteq> None \<and> ROOT_URLCONF st \<noteq> None \<and> DATABASES st \<noteq> None
       \<and> (\<forall>d v. DATABASES st = Some d \<longrightarrow> v \<in> set (dict_values d) \<longrightarrow> ENGINE v \<noteq> None)"
proof -
  note out = django_set [OF assms]
  from assms have run: "runs_through st" by (simp add: django_Inr_iff)
  have engine: "e \<in> set out"
    if "DATABASES st = Some d" "v \<in> set (dict_values d)" "ENGINE v = Some e" for d v e
  proof -
    from that have "e \<in> set (engine_contribution v)" by (simp add: engine_contribution_def)
    with in_optional_values [OF that(1,2)] show ?thesis
      by (auto simp: out set_contributions)
  qed
  have present: "ENGINE v \<noteq> None" if "DATABASES st = Some d" "v \<in> set (dict_values d)" for d v
    using run that by (auto simp: runs_through_def optional_values_def list_all_iff)
  have lists: "\<forall>apps. INSTALLED_APPS st = Some apps \<longrightarrow> set apps \<subseteq> set out"
    "\<forall>ps. TEMPLATE_CONTEXT_PROCESSORS st = Some ps \<longrightarrow> set ps \<subseteq> set out"
    "\<forall>ls. TEMPLATE_LOADERS st = Some ls \<longrightarrow> set ls \<subseteq> set out"
    "\<forall>u. ROOT_URLCONF st = Some u \<longrightarrow> u \<in> set out"
    by (auto simp: out set_contributions optional_list_def)
  from run have "INSTALLED_APPS st \<noteq> None \<and> ROOT_URLCONF st \<noteq> None \<and> DATABASES st \<noteq> None"
    by (simp add: runs_through_def)
  with lists engine present show ?thesis by blast
qed

text \<open>The entries of the example settings in the example output.\<close>

theorem C5_verbatim_entries_witness:
  "django_dottedstring_imports example_submodules example_settings (Inr example_output)
   \<and> set [''django.contrib.auth'', ''blog''] \<subseteq> set example_output
   \<and> set [''blog.context.site''] \<subseteq> set example_output
   \<and> set [''django.template.loaders.filesystem.Loader''] \<subseteq> set example_output
   \<and> ''mysite.urls'' \<in> set example_output
   \<and> ''django.db.backends.sqlite3'' \<in> set example_output"
proof -
  note inst = C5_verbatim_entries [OF example_run]
  have "''django.db.backends.sqlite3'' \<in> set example_output"
  proof -
    have "\<lparr>ENGINE = Some ''django.db.backends.sqlite3''\<rparr>
            \<in> set (dict_values [(''default'', \<lparr>ENGINE = Some ''django.db.backends.sqlite3''\<rparr>)])"
      by (simp add: dict_values_def)
    with inst example_fields(5) show ?thesis
      by (metis database.select_convs(1))
  qed
  with inst example_fields(1-4) example_run show ?thesis by blast
qed

text \<open>
  C6. For every entry \<open>app\<close> of \<open>INSTALLED_APPS\<close>, the list a run returns holds
  \<open>app + '.templatetags'\<close>, \<open>app + '.context_processors'\<close> and every module name
  that \<open>collect_submodules\<close> gives for \<open>app + '.templatetags'\<close>.
\<close>

theorem C6_application_modules:
  assumes "django_dottedstring_imports collect_submodules st (Inr out)"
    and "INSTALLED_APPS st = Some apps" and "app \<in> set apps"
  shows "app @ ''.templatetags'' \<in> set out
       \<and> app @ ''.context_processors'' \<in> set out
       \<and> set (collect_submodules (app @ ''.templatetags'')) \<subseteq> set out"
proof -
  note out = django_set [OF assms(1)]
  have "set (app_contribution collect_submodules app) \<subseteq> set out"
    using in_optional_list [OF assms(2,3)] by (auto simp: out set_contributions)
  then show ?thesis by (simp add: app_contribution_def)
qed

text \<open>The application \<open>blog\<close> of the example, whose template tags have one submodule.\<close>

theorem C6_application_modules_witness:
  "django_dottedstring_imports example_submodules example_settings (Inr example_output)
   \<and> INSTALLED_APPS example_settings = Some [''django.contrib.auth'', ''blog'']
   \<and> ''blog'' \<in> set [''django.contrib.auth'', ''blog'']
   \<and> ''blog.templatetags'' \<in> set example_output
   \<and> ''blog.context_processors'' \<in> set example_output
   \<and> set [''blog.templatetags'', ''blog.templatetags.blog_extras''] \<subseteq> set example_output"
proof -
  have app: "''blog'' \<in> set [''django.contrib.auth'', ''blog'']" by simp
  from C6_application_modules [OF example_run example_fields(1) app]
  have "''blog.templatetags'' \<in> set example_output
      \<and> ''blog.context_processors'' \<in> set example_output
      \<and> set [''blog.templatetags'', ''blog.templatetags.blog_extras''] \<subseteq> set example_output"
    by (simp add: example_submodules_def)
  with example_run example_fields(1) app show ?thesis by blast
qed

text \<open>
  C7. The only processing of the collected list is the deduplication of line 139: the lists
  a run can return are the lists with the elements of \<open>remdups\<close> of the concatenated
  contributions, each once, in the order the set gives them; nothing is filtered out,
  nothing is added and no string is changed. A run returns exactly on the settings on which
  no unguarded read fails.
\<close>

theorem C7_only_deduplication:
  "django_dottedstring_imports collect_submodules st (Inr out)
     \<longleftrightarrow> runs_through st \<and> mset out = mset (remdups (contributions collect_submodules st))"
  by (simp add: django_Inr_iff list_of_set_iff_mset)

text \<open>The example output is such a list for the example settings.\<close>

theorem C7_only_deduplication_witness:
  "runs_through example_settings
   \<and> django_dottedstring_imports example_submodules example_settings (Inr example_output)
   \<and> mset example_output = mset (remdups (contributions example_submodules example_settings))"
  using C7_only_deduplication [of example_submodules example_settings example_output] example_run
  by simp

text \<open>
  C8. The results do not depend on \<open>STORAGES\<close>: whatever the attribute is changed to,
  absent or present with any storages, the runs are the same. The block of \<open>STORAGES\<close>
  leaves \<open>hiddenimports\<close> as it is.
\<close>

theorem C8_storages_frame:
  "django_dottedstring_imports collect_submodules (st\<lparr>STORAGES := v\<rparr>) r
     = django_dottedstring_imports collect_submodules st r
   \<and> hiddenimports (block_STORAGES st s) = hiddenimports s"
  by (simp add: django_dottedstring_imports_def collect_hiddenimports_STORAGES
        hiddenimports_block_STORAGES)

text \<open>Without its \<open>STORAGES\<close> the example has the same output.\<close>

theorem C8_storages_frame_witness:
  "django_dottedstring_imports example_submodules (example_settings\<lparr>STORAGES := None\<rparr>)
     (Inr example_output)"
  using C8_storages_frame [where collect_submodules = example_submodules
      and st = example_settings and v = None and r = "Inr example_output"]
    example_run
  by simp

text \<open>
  C9. Every string under the key \<open>context_processors\<close> of the \<open>OPTIONS\<close> of a
  template is in the list a run returns, as it is written. The second loop over the
  templates tests \<open>hasattr(templ, 'OPTIONS')\<close> on a dictionary, which is false, so that
  the body of the loop only appends the stripped \<open>BACKEND\<close>; in the result the options
  of the templates account for the context processors themselves and for nothing else.
\<close>

theorem C9_context_processors_verbatim:
  assumes "django_dottedstring_imports collect_submodules st (Inr out)"
    and "TEMPLATES st = Some ts" and "t \<in> set ts"
    and "template_OPTIONS t = Some opts" and "context_processors opts = Some ps"
    and "p \<in> set ps"
  shows "p \<in> set out
       \<and> \<not> dict_hasattr ''OPTIONS''
       \<and> (\<forall>s. template_step t s =
              (case template_BACKEND t of
                 None \<Rightarrow> Inl (KeyError ''BACKEND'')
               | Some b \<Rightarrow> Inr (extend [remove_class b] s)))
       \<and> (\<exists>out'. django_dottedstring_imports collect_submodules (without_template_options st)
                    (Inr out')
                 \<and> set out = set out' \<union> (\<Union>t \<in> set ts. set (get_context_processors t)))"
proof -
  note out = django_set [OF assms(1)]
  from assms(1) have run: "runs_through st" by (simp add: django_Inr_iff)
  from assms(4-6) have "p \<in> set (get_context_processors t)"
    by (simp add: get_context_processors_def)
  with in_optional_list [OF assms(2,3)] have "p \<in> set out"
    by (auto simp: out set_contributions)
  moreover
  let ?out' = "remdups (contributions collect_submodules (without_template_options st))"
  from run have "django_dottedstring_imports collect_submodules (without_template_options st)
                   (Inr ?out')"
    by (simp add: django_result_exists runs_through_without_template_options)
  moreover have "set out = set ?out' \<union> (\<Union>t \<in> set ts. set (get_context_processors t))"
    using set_contributions_without_template_options [of collect_submodules st] assms(2)
    by (simp add: out optional_list_def)
  ultimately show ?thesis
    using template_step_eq dict_hasattr_OPTIONS by blast
qed

text \<open>The context processor of the example's template.\<close>

theorem C9_context_processors_verbatim_witness:
  "django_dottedstring_imports example_submodules example_settings (Inr example_output)
   \<and> ''django.contrib.auth.context_processors.auth'' \<in> set example_output
   \<and> \<not> dict_hasattr ''OPTIONS''"
proof -
  let ?opts = "\<lparr>context_processors = Some [''django.contrib.auth.context_processors.auth'']\<rparr>"
  let ?t = "\<lparr>template_BACKEND = Some ''django.template.backends.django.DjangoTemplates'',
             template_OPTIONS = Some ?opts\<rparr>"
  have "?t \<in> set [?t]" "template_OPTIONS ?t = Some ?opts"
    "context_processors ?opts = Some [''django.contrib.auth.context_processors.auth'']"
    "''django.contrib.auth.context_processors.auth''
       \<in> set [''django.contrib.auth.context_processors.auth'']"
    by simp_all
  from C9_context_processors_verbatim [OF example_run example_fields(9) this] example_run
  show ?thesis by blast
qed

text \<open>
  C10. For an entry without a dot in \<open>AUTHENTICATION_BACKENDS\<close>,
  \<open>FILE_UPLOAD_HANDLERS\<close>, \<open>MIDDLEWARE_CLASSES\<close> or \<open>MIDDLEWARE\<close> the helper
  \<open>_remove_class\<close> returns the empty string, and the empty string is what the loop
  appends and what the returned list holds.
\<close>

theorem C10_dotless_entry:
  assumes "django_dottedstring_imports collect_submodules st (Inr out)"
    and "AUTHENTICATION_BACKENDS st = Some xs \<or> FILE_UPLOAD_HANDLERS st = Some xs
         \<or> MIDDLEWARE_CLASSES st = Some xs \<or> MIDDLEWARE st = Some xs"
    and "x \<in> set xs" and "CHR ''.'' \<notin> set x"
  shows "remove_class x = [] \<and> [] \<in> set out
       \<and> (\<forall>s. hiddenimports (strip_append x s) = hiddenimports s @ [[]])"
proof -
  note out = django_set [OF assms(1)]
  from assms(4) have empty: "remove_class x = []" by (rule remove_class_no_dot)
  from assms(2,3) have "remove_class x \<in> set out"
    by (auto simp: out set_contributions optional_list_def)
  with empty show ?thesis by (simp add: hiddenimports_strip_append)
qed

text \<open>The entry \<open>whitenoise\<close> of \<open>MIDDLEWARE\<close> in the example.\<close>

theorem C10_dotless_entry_witness:
  "django_dottedstring_imports example_submodules example_settings (Inr example_output)
   \<and> MIDDLEWARE example_settings = Some [''django.middleware.gzip.GZipMiddleware'', ''whitenoise'']
   \<and> CHR ''.'' \<notin> set ''whitenoise''
   \<and> remove_class ''whitenoise'' = [] \<and> [] \<in> set example_output"
proof -
  have entry: "''whitenoise'' \<in> set [''django.middleware.gzip.GZipMiddleware'', ''whitenoise'']"
    and dotless: "CHR ''.'' \<notin> set ''whitenoise''"
    by simp_all
  from example_fields(6)
  have setting: "AUTHENTICATION_BACKENDS example_settings
          = Some [''django.middleware.gzip.GZipMiddleware'', ''whitenoise'']
      \<or> FILE_UPLOAD_HANDLERS example_settings
          = Some [''django.middleware.gzip.GZipMiddleware'', ''whitenoise'']
      \<or> MIDDLEWARE_CLASSES example_settings
          = Some [''django.middleware.gzip.GZipMiddleware'', ''whitenoise'']
      \<or> MIDDLEWARE example_settings
          = Some [''django.middleware.gzip.GZipMiddleware'', ''whitenoise'']"
    by blast
  from C10_dotless_entry [OF example_run setting entry dotless] example_run example_fields(6)
    dotless
  show ?thesis by blast
qed

end
